theory Spec2Isabelle
  imports Main "HOL-Library.List_Lexorder"
begin

section \<open>Data model\<close>

text \<open>
  The bot keeps one JSON document (\<^verbatim>\<open>data\<close>) in memory and mirrors it in
  \<^verbatim>\<open>./data.json\<close>. Identifiers (member, role, channel and message ids) are
  Discord snowflakes, opaque strings; the date is the ISO string \<^verbatim>\<open>YYYY-MM-DD\<close>.
  A JavaScript field that holds \<^verbatim>\<open>null\<close> or a string is a \<open>string option\<close>.
  The basic bot (\<^verbatim>\<open>src/index.js\<close>) has the three fields of \<open>doc\<close>; the panel
  version adds the two panel references.
\<close>

type_synonym snowflake = string
type_synonym date = string

record doc =
  currentDate :: date
  completed :: "snowflake list"
  gangRoleId :: "snowflake option"

record panel_doc = doc +
  panelMessageId :: "snowflake option"
  panelChannelId :: "snowflake option"

text \<open>
  What \<^verbatim>\<open>fs.readFileSync\<close> followed by \<^verbatim>\<open>JSON.parse\<close> can meet: no file
  (\<open>None\<close>), a file whose text \<^verbatim>\<open>JSON.parse\<close> rejects, or the text that
  \<^verbatim>\<open>JSON.stringify\<close> wrote for a document.
\<close>

datatype 'd file_content = Unparseable string | Json 'd

record 'd world =
  data :: 'd
  disk :: "'d file_content option"

text \<open>JavaScript truthiness of a value that is \<^verbatim>\<open>null\<close> or a string.\<close>

definition truthy :: "string option \<Rightarrow> bool" where
  "truthy v = (case v of None \<Rightarrow> False | Some s \<Rightarrow> s \<noteq> [])"

section \<open>Persistence helpers\<close>

text \<open>
  \<^verbatim>\<open>today()\<close> reads the wall clock; every function that calls it takes the date
  that call returned as an argument.
\<close>

definition loadData :: "date \<Rightarrow> doc file_content option \<Rightarrow> doc" where
  "loadData t f =
     (case f of
        Some (Json d) \<Rightarrow> d
      | _ \<Rightarrow> \<lparr>currentDate = t, completed = [], gangRoleId = None\<rparr>)"

definition loadData_panel :: "date \<Rightarrow> panel_doc file_content option \<Rightarrow> panel_doc" where
  "loadData_panel t f =
     (case f of
        Some (Json d) \<Rightarrow> d
      | _ \<Rightarrow> \<lparr>currentDate = t, completed = [], gangRoleId = None,
             panelMessageId = None, panelChannelId = None\<rparr>)"

definition saveData :: "'d world \<Rightarrow> 'd world" where
  "saveData w = w\<lparr>disk := Some (Json (data w))\<rparr>"

definition ensureToday :: "date \<Rightarrow> ('a doc_scheme) world \<Rightarrow> ('a doc_scheme) world" where
  "ensureToday t w =
     (if currentDate (data w) \<noteq> t
      then saveData (w\<lparr>data := (data w)\<lparr>currentDate := t, completed := []\<rparr>\<rparr>)
      else w)"

section \<open>Membership view\<close>

text \<open>
  A guild member as the bot reads it: \<^verbatim>\<open>id\<close>, \<^verbatim>\<open>displayName\<close>, the keys of
  \<^verbatim>\<open>roles.cache\<close>, and whether \<^verbatim>\<open>permissions.has(ManageGuild)\<close> holds.
  The guild gives \<^verbatim>\<open>roles.cache.get(id)\<close> (the role's \<^verbatim>\<open>members\<close> collection,
  in its iteration order, when the role exists), \<^verbatim>\<open>members.fetch(id)\<close> (\<open>None\<close>
  when the promise rejects), whether the panel's channel and message can be fetched, and
  the ids of the message \<^verbatim>\<open>channel.send\<close> posts (\<open>None\<close> when it rejects).
\<close>

record member =
  member_id :: snowflake
  displayName :: string
  member_roles :: "snowflake list"
  manageGuild :: bool

record guild =
  roles_cache :: "snowflake \<Rightarrow> member list option"
  members_fetch :: "snowflake \<Rightarrow> member option"
  panel_fetch :: "snowflake \<Rightarrow> snowflake \<Rightarrow> bool"
  channel_send :: "(snowflake \<times> snowflake) option"

text \<open>
  What \<^verbatim>\<open>summarize\<close> returns. \<^verbatim>\<open>total\<close> and \<^verbatim>\<open>remainingCount\<close>
  are a number or \<^verbatim>\<open>null\<close>. The handlers test \<^verbatim>\<open>!remaining\<close> and
  \<^verbatim>\<open>remaining?.slice\<close>, so \<^verbatim>\<open>remaining\<close> is read as an array or
  \<^verbatim>\<open>null\<close> too: \<open>None\<close> is the falsy value, \<open>Some r\<close> an array, which is
  truthy even when empty. A role's \<^verbatim>\<open>members\<close> collection is the list of its
  entries, so \<^verbatim>\<open>members.size\<close> is the length of that list.
\<close>

record summary =
  total :: "nat option"
  doneCount :: nat
  remainingCount :: "nat option"
  remaining :: "member list option"

definition getGangMembers :: "guild \<Rightarrow> 'a doc_scheme \<Rightarrow> member list option" where
  "getGangMembers g d =
     (if \<not> truthy (gangRoleId d) then None
      else case gangRoleId d of None \<Rightarrow> None | Some r \<Rightarrow> roles_cache g r)"

definition isGangMember :: "'a doc_scheme \<Rightarrow> member \<Rightarrow> bool" where
  "isGangMember d m =
     (if \<not> truthy (gangRoleId d) then True
      else case gangRoleId d of None \<Rightarrow> True | Some r \<Rightarrow> r \<in> set (member_roles m))"

text \<open>
  A JavaScript \<^verbatim>\<open>Set\<close> built from an array: the distinct elements in the order
  of their first occurrence. Its \<^verbatim>\<open>size\<close> is the length of that list and
  \<^verbatim>\<open>has\<close> is membership.
\<close>

definition Set_add :: "'a list \<Rightarrow> 'a \<Rightarrow> 'a list" where
  "Set_add s x = (if x \<in> set s then s else s @ [x])"

definition new_Set :: "'a list \<Rightarrow> 'a list" where
  "new_Set xs = foldl Set_add [] xs"

text \<open>
  \<^verbatim>\<open>Array.prototype.sort\<close> with a comparison function is a stable sort; for a
  consistent comparator its result is the stable insertion sort below. The comparator
  \<^verbatim>\<open>String.prototype.localeCompare\<close> belongs to the runtime and is a parameter.
\<close>

fun sort_insert :: "('a \<Rightarrow> 'a \<Rightarrow> int) \<Rightarrow> 'a \<Rightarrow> 'a list \<Rightarrow> 'a list" where
  "sort_insert c x [] = [x]"
| "sort_insert c x (y # ys) = (if c x y \<le> 0 then x # y # ys else y # sort_insert c x ys)"

definition array_sort :: "('a \<Rightarrow> 'a \<Rightarrow> int) \<Rightarrow> 'a list \<Rightarrow> 'a list" where
  "array_sort c xs = foldr (sort_insert c) xs []"

definition consistent_comparator :: "('a \<Rightarrow> 'a \<Rightarrow> int) \<Rightarrow> bool" where
  "consistent_comparator c \<longleftrightarrow>
     (\<forall>a b. c a b \<le> 0 \<or> c b a \<le> 0) \<and>
     (\<forall>a b. c a b = 0 \<longrightarrow> c b a = 0) \<and>
     (\<forall>a b d. c a b \<le> 0 \<and> c b d \<le> 0 \<longrightarrow> c a d \<le> 0)"

definition summarize ::
  "(string \<Rightarrow> string \<Rightarrow> int) \<Rightarrow> date \<Rightarrow> guild \<Rightarrow> ('a doc_scheme) world
     \<Rightarrow> summary \<times> ('a doc_scheme) world" where
  "summarize localeCompare t g w =
     (let w' = ensureToday t w in
      case getGangMembers g (data w') of
        None \<Rightarrow>
          (\<lparr>total = None, doneCount = length (completed (data w')),
            remainingCount = None, remaining = Some []\<rparr>, w')
      | Some members \<Rightarrow>
          let total = length members;
              doneSet = new_Set (completed (data w'));
              remaining =
                array_sort (\<lambda>a b. localeCompare (displayName a) (displayName b))
                  (filter (\<lambda>m. member_id m \<notin> set doneSet) members)
          in (\<lparr>total = Some total, doneCount = min (length doneSet) total,
               remainingCount = Some (length remaining), remaining = Some remaining\<rparr>, w'))"

section \<open>Replies and interactions\<close>

text \<open>
  A reply is kept by its kind and the data it shows, not by its text. The progress line
  of a reply shows done/total and the remaining count when the bot takes a total to be
  present, and the done count alone otherwise; the slash commands of both versions test
  \<^verbatim>\<open>total ? ... : ...\<close> (so a total of 0 counts as absent), the panel and the
  status button test \<^verbatim>\<open>total !== null\<close>.
\<close>

datatype progress = Tracked nat nat "nat option" | Untracked nat

datatype reply =
    GangRoleSet string
  | ChecklistReset
  | NoGangRole
  | AlreadyDone date
  | SubmissionRecorded date progress
  | MarkedDone date
  | TodaysProgress date progress "member list"
  | StatusText progress
  | SetRoleFirst
  | EveryoneDone
  | RemainingList "member list"
  | DailyCheck "member list"
  | AdminsOnly
  | HelpText
  | PanelPosted

text \<open>
  An interaction is a slash command (its name, the invoking user's id and the resolved
  \<^verbatim>\<open>role\<close> option as id and name), a button press (its \<^verbatim>\<open>customId\<close> and the
  user's id), or anything else the gateway delivers.
\<close>

datatype interaction =
    ChatInputCommand string snowflake "(snowflake \<times> string) option"
  | Button string snowflake
  | OtherInteraction

definition progress_truthy :: "summary \<Rightarrow> progress" where
  "progress_truthy s =
     (case total s of
        None \<Rightarrow> Untracked (doneCount s)
      | Some n \<Rightarrow>
          if n \<noteq> 0 then Tracked (doneCount s) n (remainingCount s) else Untracked (doneCount s))"

definition progress_not_null :: "summary \<Rightarrow> progress" where
  "progress_not_null s =
     (case total s of
        None \<Rightarrow> Untracked (doneCount s)
      | Some n \<Rightarrow> Tracked (doneCount s) n (remainingCount s))"

section \<open>Handlers shared by both versions\<close>

text \<open>
  A handler returns the reply it sends (\<open>None\<close> when it returns without replying or a
  rejected promise ends it) and the world it leaves. The \<open>k\<close>-th call of
  \<^verbatim>\<open>today()\<close> during one run of \<^verbatim>\<open>interactionCreate\<close> returns \<open>now k\<close>.
\<close>

definition cmd_status ::
  "(string \<Rightarrow> string \<Rightarrow> int) \<Rightarrow> date \<Rightarrow> guild \<Rightarrow> ('a doc_scheme) world
     \<Rightarrow> reply option \<times> ('a doc_scheme) world" where
  "cmd_status lc t g w0 =
     (let (s, w1) = summarize lc t g w0;
          remainingPreview = take 20 (case remaining s of None \<Rightarrow> [] | Some r \<Rightarrow> r)
      in (Some (TodaysProgress (currentDate (data w1)) (progress_truthy s) remainingPreview), w1))"

definition cmd_remaining ::
  "(string \<Rightarrow> string \<Rightarrow> int) \<Rightarrow> date \<Rightarrow> guild \<Rightarrow> ('a doc_scheme) world
     \<Rightarrow> reply option \<times> ('a doc_scheme) world" where
  "cmd_remaining lc t g w0 =
     (let (s, w1) = summarize lc t g w0 in
      case remaining s of
        None \<Rightarrow> (Some SetRoleFirst, w1)
      | Some r \<Rightarrow> (Some (if r \<noteq> [] then RemainingList r else EveryoneDone), w1))"

definition cmd_ping_remaining ::
  "(string \<Rightarrow> string \<Rightarrow> int) \<Rightarrow> date \<Rightarrow> guild \<Rightarrow> ('a doc_scheme) world
     \<Rightarrow> reply option \<times> ('a doc_scheme) world" where
  "cmd_ping_remaining lc t g w0 =
     (let (s, w1) = summarize lc t g w0 in
      case remaining s of
        None \<Rightarrow> (Some SetRoleFirst, w1)
      | Some r \<Rightarrow> if r = [] then (Some EveryoneDone, w1) else (Some (DailyCheck r), w1))"

section \<open>The basic bot\<close>

definition cmd_done ::
  "(string \<Rightarrow> string \<Rightarrow> int) \<Rightarrow> date \<Rightarrow> guild \<Rightarrow> snowflake \<Rightarrow> doc world
     \<Rightarrow> reply option \<times> doc world" where
  "cmd_done lc t g uid w0 =
     (case members_fetch g uid of
        None \<Rightarrow> (None, w0)
      | Some m \<Rightarrow>
          if \<not> isGangMember (data w0) m then (Some NoGangRole, w0)
          else if member_id m \<in> set (completed (data w0))
          then (Some (AlreadyDone (currentDate (data w0))), w0)
          else
            (let w1 = saveData
                   (w0\<lparr>data := (data w0)\<lparr>completed := completed (data w0) @ [member_id m]\<rparr>\<rparr>);
                 (s, w2) = summarize lc t g w1
             in (Some (SubmissionRecorded (currentDate (data w2)) (progress_truthy s)), w2)))"

definition interactionCreate ::
  "(string \<Rightarrow> string \<Rightarrow> int) \<Rightarrow> (nat \<Rightarrow> date) \<Rightarrow> guild \<Rightarrow> interaction \<Rightarrow> doc world
     \<Rightarrow> reply option \<times> doc world" where
  "interactionCreate lc now g i w =
     (case i of
        ChatInputCommand commandName uid role \<Rightarrow>
          (let w0 = ensureToday (now 0) w in
           if commandName = ''setgangrole'' then
             (case role of
                None \<Rightarrow> (None, w0)
              | Some (rid, rname) \<Rightarrow>
                  (Some (GangRoleSet rname),
                   saveData (w0\<lparr>data := (data w0)\<lparr>gangRoleId := Some rid\<rparr>\<rparr>)))
           else if commandName = ''force-reset'' then
             (Some ChecklistReset,
              saveData (w0\<lparr>data := (data w0)\<lparr>currentDate := now 1, completed := []\<rparr>\<rparr>))
           else if commandName = ''done'' then cmd_done lc (now 1) g uid w0
           else if commandName = ''status'' then cmd_status lc (now 1) g w0
           else if commandName = ''remaining'' then cmd_remaining lc (now 1) g w0
           else if commandName = ''ping-remaining'' then cmd_ping_remaining lc (now 1) g w0
           else (None, w0))
      | _ \<Rightarrow> (None, w))"

section \<open>The panel version\<close>

text \<open>
  \<^verbatim>\<open>panelEmbed\<close> builds the panel's embed from a fresh summary: the date and the
  progress lines, with the world \<open>summarize\<close> leaves.
\<close>

definition panelEmbed ::
  "(string \<Rightarrow> string \<Rightarrow> int) \<Rightarrow> date \<Rightarrow> guild \<Rightarrow> panel_doc world
     \<Rightarrow> (date \<times> progress) \<times> panel_doc world" where
  "panelEmbed lc t g w =
     (let (s, w1) = summarize lc t g w in ((currentDate (data w1), progress_not_null s), w1))"

text \<open>
  After a mutation the panel version edits the pinned panel message inside
  \<^verbatim>\<open>try { ... } catch {}\<close>. When both references are truthy and the channel and
  message are fetched, the new embed is built by \<open>panelEmbed\<close>, whose rollover is the
  only effect on the world; every failure is swallowed.
\<close>

definition refresh_panel ::
  "(string \<Rightarrow> string \<Rightarrow> int) \<Rightarrow> date \<Rightarrow> guild \<Rightarrow> panel_doc world \<Rightarrow> panel_doc world" where
  "refresh_panel lc t g w =
     (if truthy (panelChannelId (data w)) \<and> truthy (panelMessageId (data w)) then
        (case (panelChannelId (data w), panelMessageId (data w)) of
           (Some ch, Some msg) \<Rightarrow> if panel_fetch g ch msg then snd (panelEmbed lc t g w) else w
         | _ \<Rightarrow> w)
      else w)"

definition panel_done ::
  "(string \<Rightarrow> string \<Rightarrow> int) \<Rightarrow> date \<Rightarrow> guild \<Rightarrow> member \<Rightarrow> panel_doc world
     \<Rightarrow> reply option \<times> panel_doc world" where
  "panel_done lc t g m w0 =
     (if \<not> isGangMember (data w0) m then (Some NoGangRole, w0)
      else
        (let w1 = (if member_id m \<notin> set (completed (data w0))
                   then saveData
                     (w0\<lparr>data := (data w0)\<lparr>completed := completed (data w0) @ [member_id m]\<rparr>\<rparr>)
                   else w0);
             w2 = refresh_panel lc t g w1
         in (Some (MarkedDone (currentDate (data w2))), w2)))"

definition panel_ping ::
  "(string \<Rightarrow> string \<Rightarrow> int) \<Rightarrow> date \<Rightarrow> guild \<Rightarrow> member \<Rightarrow> panel_doc world
     \<Rightarrow> reply option \<times> panel_doc world" where
  "panel_ping lc t g m w0 =
     (if \<not> manageGuild m then (Some AdminsOnly, w0) else cmd_ping_remaining lc t g w0)"

definition button_pressed ::
  "(string \<Rightarrow> string \<Rightarrow> int) \<Rightarrow> date \<Rightarrow> guild \<Rightarrow> string \<Rightarrow> snowflake \<Rightarrow> panel_doc world
     \<Rightarrow> reply option \<times> panel_doc world" where
  "button_pressed lc t g customId uid w0 =
     (case members_fetch g uid of
        None \<Rightarrow> (None, w0)
      | Some m \<Rightarrow>
          if customId = ''btn_help'' then (Some HelpText, w0)
          else if customId = ''btn_done'' then panel_done lc t g m w0
          else if customId = ''btn_status'' then
            (let (s, w1) = summarize lc t g w0 in (Some (StatusText (progress_not_null s)), w1))
          else if customId = ''btn_remaining'' then cmd_remaining lc t g w0
          else if customId = ''btn_ping'' then panel_ping lc t g m w0
          else (None, w0))"

definition interactionCreate_panel ::
  "(string \<Rightarrow> string \<Rightarrow> int) \<Rightarrow> (nat \<Rightarrow> date) \<Rightarrow> guild \<Rightarrow> interaction \<Rightarrow> panel_doc world
     \<Rightarrow> reply option \<times> panel_doc world" where
  "interactionCreate_panel lc now g i w =
     (let w0 = ensureToday (now 0) w in
      case i of
        Button customId uid \<Rightarrow> button_pressed lc (now 1) g customId uid w0
      | OtherInteraction \<Rightarrow> (None, w0)
      | ChatInputCommand commandName uid role \<Rightarrow>
          if commandName = ''setgangrole'' then
            (case role of
               None \<Rightarrow> (None, w0)
             | Some (rid, rname) \<Rightarrow>
                 (Some (GangRoleSet rname),
                  refresh_panel lc (now 1) g
                    (saveData (w0\<lparr>data := (data w0)\<lparr>gangRoleId := Some rid\<rparr>\<rparr>))))
          else if commandName = ''force-reset'' then
            (Some ChecklistReset,
             refresh_panel lc (now 2) g
               (saveData (w0\<lparr>data := (data w0)\<lparr>currentDate := now 1, completed := []\<rparr>\<rparr>)))
          else if commandName = ''done'' then
            (case members_fetch g uid of
               None \<Rightarrow> (None, w0)
             | Some m \<Rightarrow> panel_done lc (now 1) g m w0)
          else if commandName = ''status'' then cmd_status lc (now 1) g w0
          else if commandName = ''remaining'' then cmd_remaining lc (now 1) g w0
          else if commandName = ''ping-remaining'' then
            (case members_fetch g uid of
               None \<Rightarrow> (None, w0)
             | Some m \<Rightarrow> panel_ping lc (now 1) g m w0)
          else if commandName = ''panel'' then
            (let w1 = snd (panelEmbed lc (now 1) g w0) in
             case channel_send g of
               None \<Rightarrow> (None, w1)
             | Some (sent_id, sent_channel_id) \<Rightarrow>
                 (Some PanelPosted,
                  saveData (w1\<lparr>data := (data w1)\<lparr>panelMessageId := Some sent_id,
                                                  panelChannelId := Some sent_channel_id\<rparr>\<rparr>)))
          else (None, w0))"

section \<open>Example data\<close>

text \<open>
  The examples use the roster of the specification's scenario (Bo, amy, Zed under one
  role), a fourth member without the role, and a stand-in for
  \<^verbatim>\<open>localeCompare\<close> that compares ASCII letters without regard to case.
\<close>

definition ci_key :: "string \<Rightarrow> nat list" where
  "ci_key s = map (\<lambda>c. let n = of_char c in if 65 \<le> n \<and> n \<le> (90::nat) then n + 32 else n) s"

definition ci_compare :: "string \<Rightarrow> string \<Rightarrow> int" where
  "ci_compare a b = (if ci_key a < ci_key b then - 1 else if ci_key a = ci_key b then 0 else 1)"

abbreviation Bo :: member where
  "Bo \<equiv> \<lparr>member_id = ''1'', displayName = ''Bo'', member_roles = [''7''], manageGuild = True\<rparr>"

abbreviation amy :: member where
  "amy \<equiv> \<lparr>member_id = ''2'', displayName = ''amy'', member_roles = [''7''], manageGuild = False\<rparr>"

abbreviation Zed :: member where
  "Zed \<equiv> \<lparr>member_id = ''3'', displayName = ''Zed'', member_roles = [''7''], manageGuild = False\<rparr>"

abbreviation Kim :: member where
  "Kim \<equiv> \<lparr>member_id = ''4'', displayName = ''Kim'', member_roles = [], manageGuild = False\<rparr>"

abbreviation the_guild :: guild where
  "the_guild \<equiv>
     \<lparr>roles_cache = (\<lambda>r. if r = ''7'' then Some [Bo, amy, Zed] else None),
      members_fetch = (\<lambda>u. if u = ''1'' then Some Bo else if u = ''2'' then Some amy
                           else if u = ''3'' then Some Zed else if u = ''4'' then Some Kim
                           else None),
      panel_fetch = (\<lambda>ch msg. True),
      channel_send = Some (''900'', ''800'')\<rparr>"

abbreviation stale_doc :: doc where
  "stale_doc \<equiv> \<lparr>currentDate = ''2024-05-01'', completed = [''2''], gangRoleId = Some ''7''\<rparr>"

abbreviation stale_world :: "doc world" where
  "stale_world \<equiv> \<lparr>data = stale_doc, disk = Some (Json stale_doc)\<rparr>"

abbreviation current_doc :: doc where
  "current_doc \<equiv> \<lparr>currentDate = ''2024-05-02'', completed = [''2''], gangRoleId = Some ''7''\<rparr>"

abbreviation current_world :: "doc world" where
  "current_world \<equiv> \<lparr>data = current_doc, disk = Some (Json current_doc)\<rparr>"

abbreviation stale_panel_doc :: panel_doc where
  "stale_panel_doc \<equiv>
     \<lparr>currentDate = ''2024-05-01'', completed = [''2''], gangRoleId = Some ''7'',
      panelMessageId = Some ''900'', panelChannelId = Some ''800''\<rparr>"

abbreviation stale_panel_world :: "panel_doc world" where
  "stale_panel_world \<equiv> \<lparr>data = stale_panel_doc, disk = Some (Json stale_panel_doc)\<rparr>"

abbreviation current_panel_doc :: panel_doc where
  "current_panel_doc \<equiv>
     \<lparr>currentDate = ''2024-05-02'', completed = [''2''], gangRoleId = Some ''7'',
      panelMessageId = Some ''900'', panelChannelId = Some ''800''\<rparr>"

abbreviation current_panel_world :: "panel_doc world" where
  "current_panel_world \<equiv> \<lparr>data = current_panel_doc, disk = Some (Json current_panel_doc)\<rparr>"

abbreviation on_may_2 :: "nat \<Rightarrow> date" where
  "on_may_2 \<equiv> (\<lambda>k. ''2024-05-02'')"

section \<open>Rollover and loading\<close>

lemmas view_defs = summarize_def ensureToday_def saveData_def getGangMembers_def
  isGangMember_def truthy_def new_Set_def Set_add_def array_sort_def ci_compare_def ci_key_def
  Let_def

lemmas basic_defs = interactionCreate_def cmd_done_def cmd_status_def cmd_remaining_def
  cmd_ping_remaining_def progress_truthy_def progress_not_null_def

lemmas panel_defs = interactionCreate_panel_def button_pressed_def panel_done_def panel_ping_def
  refresh_panel_def panelEmbed_def cmd_status_def cmd_remaining_def cmd_ping_remaining_def
  progress_truthy_def progress_not_null_def

lemma ensureToday_same: "currentDate (data w) = t \<Longrightarrow> ensureToday t w = w"
  by (simp add: ensureToday_def)

lemma currentDate_ensureToday: "currentDate (data (ensureToday t w)) = t"
  by (simp add: ensureToday_def saveData_def)

lemma gangRoleId_ensureToday: "gangRoleId (data (ensureToday t w)) = gangRoleId (data w)"
  by (simp add: ensureToday_def saveData_def)

lemma panel_refs_ensureToday:
  "panelMessageId (data (ensureToday t w)) = panelMessageId (data w) \<and>
   panelChannelId (data (ensureToday t w)) = panelChannelId (data w)"
  by (simp add: ensureToday_def saveData_def)

lemma completed_ensureToday_empty:
  "completed (data w) = [] \<Longrightarrow> completed (data (ensureToday t w)) = []"
  by (simp add: ensureToday_def saveData_def)

lemma ensureToday_idem: "ensureToday t (ensureToday t w) = ensureToday t w"
  by (simp add: ensureToday_def saveData_def)

lemma distinct_ensureToday:
  "distinct (completed (data w)) \<Longrightarrow> distinct (completed (data (ensureToday t w)))"
  by (simp add: ensureToday_def saveData_def)

lemma isGangMember_ensureToday:
  "isGangMember (data (ensureToday t w)) m = isGangMember (data w) m"
  by (simp add: isGangMember_def gangRoleId_ensureToday)

text \<open>
  C2. A document whose date is not today's comes out of \<open>ensureToday\<close> with an empty
  completed list and today's date, written to disk, its other fields as they were; a
  document dated today is returned as it is, and so is the result of a first call when
  \<open>ensureToday\<close> runs again on the same day.
\<close>

theorem ensureToday_rollover:
  "(currentDate (data w) \<noteq> t \<longrightarrow>
      completed (data (ensureToday t w)) = [] \<and>
      currentDate (data (ensureToday t w)) = t \<and>
      gangRoleId (data (ensureToday t w)) = gangRoleId (data w) \<and>
      doc.more (data (ensureToday t w)) = doc.more (data w) \<and>
      disk (ensureToday t w) = Some (Json (data (ensureToday t w)))) \<and>
   (currentDate (data w) = t \<longrightarrow> ensureToday t w = w) \<and>
   ensureToday t (ensureToday t w) = ensureToday t w"
  by (simp add: ensureToday_def saveData_def)

text \<open>Yesterday's document is rolled over and saved; today's is left alone.\<close>

theorem ensureToday_rollover_witness:
  "currentDate (data stale_world) \<noteq> ''2024-05-02'' \<and>
   ensureToday ''2024-05-02'' stale_world
     = \<lparr>data = \<lparr>currentDate = ''2024-05-02'', completed = [], gangRoleId = Some ''7''\<rparr>,
        disk = Some (Json \<lparr>currentDate = ''2024-05-02'', completed = [], gangRoleId = Some ''7''\<rparr>)\<rparr> \<and>
   currentDate (data current_world) = ''2024-05-02'' \<and>
   ensureToday ''2024-05-02'' current_world = current_world"
  using
    ensureToday_rollover [of stale_world "''2024-05-02''"]
    ensureToday_rollover [of current_world "''2024-05-02''"]
  by (simp add: ensureToday_def saveData_def)

text \<open>
  C8. When the file is absent or its text does not parse, \<open>loadData\<close> returns the
  default document: today's date, nobody completed, no role and, in the panel version,
  no panel references.
\<close>

theorem loadData_default:
  "(f = None \<or> (\<exists>s. f = Some (Unparseable s)) \<longrightarrow>
      loadData t f = \<lparr>currentDate = t, completed = [], gangRoleId = None\<rparr>) \<and>
   (f' = None \<or> (\<exists>s. f' = Some (Unparseable s)) \<longrightarrow>
      loadData_panel t f' =
        \<lparr>currentDate = t, completed = [], gangRoleId = None,
         panelMessageId = None, panelChannelId = None\<rparr>)"
  by (auto simp: loadData_def loadData_panel_def)

text \<open>A missing file for the basic bot, a truncated one for the panel version.\<close>

theorem loadData_default_witness:
  "loadData ''2024-05-02'' None
     = \<lparr>currentDate = ''2024-05-02'', completed = [], gangRoleId = None\<rparr> \<and>
   loadData_panel ''2024-05-02'' (Some (Unparseable ''{currentDate:''))
     = \<lparr>currentDate = ''2024-05-02'', completed = [], gangRoleId = None,
        panelMessageId = None, panelChannelId = None\<rparr>"
  using loadData_default [of None "''2024-05-02''" "Some (Unparseable ''{currentDate:'')"]
  by simp

section \<open>Sets and sorting\<close>

lemma set_foldl_Set_add: "set (foldl Set_add acc xs) = set acc \<union> set xs"
  by (induction xs arbitrary: acc) (auto simp: Set_add_def)

lemma distinct_foldl_Set_add: "distinct acc \<Longrightarrow> distinct (foldl Set_add acc xs)"
  by (induction xs arbitrary: acc) (auto simp: Set_add_def)

lemma set_new_Set: "set (new_Set xs) = set xs"
  by (simp add: new_Set_def set_foldl_Set_add)

lemma distinct_new_Set: "distinct (new_Set xs)"
  by (simp add: new_Set_def distinct_foldl_Set_add)

lemma length_new_Set: "length (new_Set xs) = card (set xs)"
  using distinct_card [OF distinct_new_Set, of xs] by (simp add: set_new_Set)

lemma set_sort_insert: "set (sort_insert c x ys) = insert x (set ys)"
  by (induction ys) auto

lemma length_sort_insert: "length (sort_insert c x ys) = Suc (length ys)"
  by (induction ys) auto

lemma set_array_sort: "set (array_sort c xs) = set xs"
  by (induction xs) (auto simp: array_sort_def set_sort_insert)

lemma length_array_sort: "length (array_sort c xs) = length xs"
  by (induction xs) (auto simp: array_sort_def length_sort_insert)

lemma sorted_sort_insert:
  assumes "consistent_comparator c" and "sorted_wrt (\<lambda>a b. c a b \<le> 0) ys"
  shows "sorted_wrt (\<lambda>a b. c a b \<le> 0) (sort_insert c x ys)"
  using assms(2)
proof (induction ys)
  case Nil
  then show ?case by simp
next
  case (Cons y ys)
  have tot: "\<And>a b. c a b \<le> 0 \<or> c b a \<le> 0"
    and trans: "\<And>a b d. c a b \<le> 0 \<Longrightarrow> c b d \<le> 0 \<Longrightarrow> c a d \<le> 0"
    using assms(1) unfolding consistent_comparator_def by blast+
  show ?case
  proof (cases "c x y \<le> 0")
    case True
    with Cons.prems trans show ?thesis by auto
  next
    case False
    with tot have "c y x \<le> 0" by blast
    with False Cons show ?thesis by (auto simp: set_sort_insert)
  qed
qed

lemma sorted_array_sort:
  "consistent_comparator c \<Longrightarrow> sorted_wrt (\<lambda>a b. c a b \<le> 0) (array_sort c xs)"
  by (induction xs) (auto simp: array_sort_def sorted_sort_insert)

text \<open>
  Stability: the elements of a class whose members compare as equal keep their order,
  because an inserted element stops in front of the first element it does not exceed.
\<close>

lemma filter_sort_insert_out: "\<not> P x \<Longrightarrow> filter P (sort_insert c x ys) = filter P ys"
  by (induction ys) auto

lemma filter_sort_insert_in:
  "P x \<Longrightarrow> (\<And>y. y \<in> set ys \<Longrightarrow> P y \<Longrightarrow> c x y \<le> 0) \<Longrightarrow>
     filter P (sort_insert c x ys) = x # filter P ys"
  by (induction ys) auto

lemma filter_array_sort:
  "(\<And>x y. P x \<Longrightarrow> P y \<Longrightarrow> c x y \<le> 0) \<Longrightarrow> filter P (array_sort c xs) = filter P xs"
proof (induction xs)
  case Nil
  then show ?case by (simp add: array_sort_def)
next
  case (Cons x xs)
  then have ih: "filter P (array_sort c xs) = filter P xs" by blast
  show ?case
  proof (cases "P x")
    case True
    then have "filter P (sort_insert c x (array_sort c xs)) = x # filter P (array_sort c xs)"
      using Cons.prems by (intro filter_sort_insert_in) auto
    with True ih show ?thesis by (simp add: array_sort_def)
  next
    case False
    with ih show ?thesis by (simp add: array_sort_def filter_sort_insert_out)
  qed
qed

lemma consistent_on_displayName:
  assumes "consistent_comparator lc"
  shows "consistent_comparator (\<lambda>a b. lc (displayName a) (displayName b))"
  using assms unfolding consistent_comparator_def by blast

lemma ci_compare_consistent: "consistent_comparator ci_compare"
  unfolding consistent_comparator_def ci_compare_def by auto

lemma length_filter_distinct_keys:
  "distinct (map f xs) \<Longrightarrow> length (filter (\<lambda>x. f x \<in> D) xs) = card (D \<inter> f ` set xs)"
proof (induction xs)
  case Nil
  then show ?case by simp
next
  case (Cons x xs)
  then have fresh: "f x \<notin> f ` set xs"
    and ih: "length (filter (\<lambda>x. f x \<in> D) xs) = card (D \<inter> f ` set xs)"
    by auto
  show ?case
  proof (cases "f x \<in> D")
    case True
    then have "D \<inter> f ` set (x # xs) = insert (f x) (D \<inter> f ` set xs)" by auto
    moreover have "f x \<notin> D \<inter> f ` set xs" using fresh by blast
    ultimately show ?thesis using True ih by simp
  next
    case False
    then have "D \<inter> f ` set (x # xs) = D \<inter> f ` set xs" by auto
    with False ih show ?thesis by simp
  qed
qed

lemma count_list_distinct: "distinct xs \<Longrightarrow> x \<in> set xs \<Longrightarrow> count_list xs x = 1"
  by (induction xs) auto

lemma funpow_idem: "f (f x) = f x \<Longrightarrow> (f ^^ Suc n) x = f x"
  by (induction n) simp_all

section \<open>The membership view\<close>

lemma getGangMembers_ensureToday:
  "getGangMembers g (data (ensureToday t w)) = getGangMembers g (data w)"
  by (simp add: getGangMembers_def ensureToday_def saveData_def)

lemma getGangMembers_Some:
  "gangRoleId d = Some r \<Longrightarrow> r \<noteq> [] \<Longrightarrow> getGangMembers g d = roles_cache g r"
  by (simp add: getGangMembers_def truthy_def)

lemma getGangMembers_None:
  "\<not> truthy (gangRoleId d) \<or> (\<exists>r. gangRoleId d = Some r \<and> roles_cache g r = None)
     \<Longrightarrow> getGangMembers g d = None"
  by (auto simp: getGangMembers_def)

lemma summarize_resolved:
  assumes "getGangMembers g (data w) = Some members"
  shows "summarize lc t g w =
    (\<lparr>total = Some (length members),
      doneCount = min (card (set (completed (data (ensureToday t w))))) (length members),
      remainingCount = Some (length (filter
         (\<lambda>m. member_id m \<notin> set (completed (data (ensureToday t w)))) members)),
      remaining = Some (array_sort (\<lambda>a b. lc (displayName a) (displayName b))
         (filter (\<lambda>m. member_id m \<notin> set (completed (data (ensureToday t w)))) members))\<rparr>,
     ensureToday t w)"
  using assms
  by (simp add: summarize_def Let_def getGangMembers_ensureToday set_new_Set length_new_Set
      length_array_sort)

lemma summarize_unresolved:
  assumes "getGangMembers g (data w) = None"
  shows "summarize lc t g w =
    (\<lparr>total = None, doneCount = length (completed (data (ensureToday t w))),
      remainingCount = None, remaining = Some []\<rparr>, ensureToday t w)"
  using assms by (simp add: summarize_def Let_def getGangMembers_ensureToday)

lemma snd_summarize: "snd (summarize lc t g w) = ensureToday t w"
  by (simp add: summarize_def Let_def split: option.splits)

lemma remaining_summarize: "remaining (fst (summarize lc t g w)) \<noteq> None"
  by (simp add: summarize_def Let_def split: option.splits)

lemma doneCount_empty:
  assumes "completed (data w) = []"
  shows "doneCount (fst (summarize lc t g w)) = 0"
  using completed_ensureToday_empty [OF assms, of t]
  by (simp add: summarize_def Let_def new_Set_def split: option.splits)

text \<open>
  Kim was marked done while no role was configured; role 7 was configured afterwards
  and Kim does not hold it. That id still counts: \<open>doneCount\<close> is 1 although no
  member of the role is done, and done plus remaining is 4 for a total of 3.
\<close>

theorem summarize_doneCount_counterexample:
  "gangRoleId (data \<lparr>data = current_doc\<lparr>completed := [''4'']\<rparr>, disk = None\<rparr>) = Some ''7'' \<and>
   roles_cache the_guild ''7'' = Some [Bo, amy, Zed] \<and>
   fst (summarize ci_compare ''2024-05-02'' the_guild
          \<lparr>data = current_doc\<lparr>completed := [''4'']\<rparr>, disk = None\<rparr>)
     = \<lparr>total = Some 3, doneCount = 1, remainingCount = Some 3,
        remaining = Some [amy, Bo, Zed]\<rparr> \<and>
   doneCount (fst (summarize ci_compare ''2024-05-02'' the_guild
          \<lparr>data = current_doc\<lparr>completed := [''4'']\<rparr>, disk = None\<rparr>))
     \<noteq> min (card (set [''4''] \<inter> member_id ` set [Bo, amy, Zed])) (length [Bo, amy, Zed]) \<and>
   doneCount (fst (summarize ci_compare ''2024-05-02'' the_guild
          \<lparr>data = current_doc\<lparr>completed := [''4'']\<rparr>, disk = None\<rparr>)) + 3
     \<noteq> length [Bo, amy, Zed]"
  by (simp add: view_defs)

text \<open>
  C1, as the code has it. When the configured role resolves to \<open>members\<close>,
  \<open>summarize\<close> returns \<open>total = |members|\<close> and \<open>doneCount = min(d, total)\<close>, where \<open>d\<close> is the number of
  distinct identifiers in the completed list after rollover, members of the role or not;
  so \<open>doneCount \<le> total\<close>. \<open>remainingCount\<close> is the number of members not in the
  completed list. When the members' ids are distinct and every completed identifier is a
  member's, \<open>doneCount\<close> is \<open>|completed \<inter> members|\<close> and
  \<open>doneCount + remainingCount = total\<close>.
\<close>

theorem summarize_doneCount:
  assumes "gangRoleId (data w) = Some r" and "r \<noteq> []" and "roles_cache g r = Some members"
  shows "let s = fst (summarize lc t g w);
             done = set (completed (data (snd (summarize lc t g w))));
             left = filter (\<lambda>m. member_id m \<notin> done) members
         in snd (summarize lc t g w) = ensureToday t w \<and>
            total s = Some (length members) \<and>
            doneCount s = min (card done) (length members) \<and>
            doneCount s \<le> length members \<and>
            remainingCount s = Some (length left) \<and>
            (distinct (map member_id members) \<and> done \<subseteq> member_id ` set members \<longrightarrow>
               doneCount s = card (done \<inter> member_id ` set members) \<and>
               doneCount s + length left = length members)"
proof -
  have res: "getGangMembers g (data w) = Some members"
    using assms by (simp add: getGangMembers_Some)
  let ?done = "set (completed (data (ensureToday t w)))"
  let ?ids = "member_id ` set members"
  have sum: "doneCount (fst (summarize lc t g w)) = card (?done \<inter> ?ids) \<and>
      doneCount (fst (summarize lc t g w))
        + length (filter (\<lambda>m. member_id m \<notin> ?done) members) = length members"
    if d: "distinct (map member_id members)" and sub: "?done \<subseteq> ?ids"
  proof -
    have inter: "?done \<inter> ?ids = ?done" using sub by blast
    have "length (filter (\<lambda>m. member_id m \<in> ?done) members) = card ?done"
      using length_filter_distinct_keys [OF d, of ?done] inter by simp
    moreover have "length (filter (\<lambda>m. member_id m \<in> ?done) members)
        + length (filter (\<lambda>m. member_id m \<notin> ?done) members) = length members"
      by (rule sum_length_filter_compl)
    ultimately show ?thesis
      by (simp add: summarize_resolved [OF res] inter)
  qed
  have base: "snd (summarize lc t g w) = ensureToday t w \<and>
      total (fst (summarize lc t g w)) = Some (length members) \<and>
      doneCount (fst (summarize lc t g w)) = min (card ?done) (length members) \<and>
      doneCount (fst (summarize lc t g w)) \<le> length members \<and>
      remainingCount (fst (summarize lc t g w))
        = Some (length (filter (\<lambda>m. member_id m \<notin> ?done) members))"
    by (simp add: summarize_resolved [OF res])
  from base have w': "snd (summarize lc t g w) = ensureToday t w" by blast
  show ?thesis
    unfolding Let_def w' using base sum by blast
qed

text \<open>The scenario of the specification: amy is done, Bo and Zed remain.\<close>

theorem summarize_doneCount_witness:
  "gangRoleId (data current_world) = Some ''7'' \<and>
   roles_cache the_guild ''7'' = Some [Bo, amy, Zed] \<and>
   distinct (map member_id [Bo, amy, Zed]) \<and>
   set (completed (data current_world)) \<subseteq> member_id ` set [Bo, amy, Zed] \<and>
   fst (summarize ci_compare ''2024-05-02'' the_guild current_world)
     = \<lparr>total = Some 3, doneCount = 1, remainingCount = Some 2, remaining = Some [Bo, Zed]\<rparr>"
  using summarize_doneCount [of current_world "''7''" the_guild "[Bo, amy, Zed]" ci_compare
      "''2024-05-02''"]
  by (simp add: view_defs)

text \<open>
  C3. With no role configured (\<^verbatim>\<open>null\<close> or the empty string), or with a
  configured role that the guild no longer has, \<open>summarize\<close> returns no total, no
  remaining count, an empty remaining list and the length of the completed list as it is
  after rollover, without a cap; for a document dated today that is the length of its
  completed list.
\<close>

theorem summarize_indeterminate:
  assumes "\<not> truthy (gangRoleId (data w)) \<or>
           (\<exists>r. gangRoleId (data w) = Some r \<and> roles_cache g r = None)"
  shows "summarize lc t g w =
           (\<lparr>total = None, doneCount = length (completed (data (ensureToday t w))),
             remainingCount = None, remaining = Some []\<rparr>, ensureToday t w) \<and>
         (currentDate (data w) = t \<longrightarrow>
            doneCount (fst (summarize lc t g w)) = length (completed (data w)))"
proof -
  have "getGangMembers g (data w) = None"
    using assms by (rule getGangMembers_None)
  then show ?thesis
    by (simp add: summarize_unresolved ensureToday_def)
qed

text \<open>
  Three members done with no role configured; four identifiers under role 8, which the
  guild does not have.
\<close>

theorem summarize_indeterminate_witness:
  "truthy (gangRoleId (data
      \<lparr>data = current_doc\<lparr>completed := [''1'', ''2'', ''4''], gangRoleId := None\<rparr>,
       disk = None\<rparr>)) = False \<and>
   fst (summarize ci_compare ''2024-05-02'' the_guild
      \<lparr>data = current_doc\<lparr>completed := [''1'', ''2'', ''4''], gangRoleId := None\<rparr>, disk = None\<rparr>)
     = \<lparr>total = None, doneCount = 3, remainingCount = None, remaining = Some []\<rparr> \<and>
   roles_cache the_guild ''8'' = None \<and>
   fst (summarize ci_compare ''2024-05-02'' the_guild
      \<lparr>data = current_doc\<lparr>completed := [''1'', ''2'', ''4'', ''5''], gangRoleId := Some ''8''\<rparr>,
       disk = None\<rparr>)
     = \<lparr>total = None, doneCount = 4, remainingCount = None, remaining = Some []\<rparr>"
  using
    summarize_indeterminate [of
      "\<lparr>data = current_doc\<lparr>completed := [''1'', ''2'', ''4''], gangRoleId := None\<rparr>, disk = None\<rparr>"
      the_guild ci_compare "''2024-05-02''"]
    summarize_indeterminate [of
      "\<lparr>data = current_doc\<lparr>completed := [''1'', ''2'', ''4'', ''5''], gangRoleId := Some ''8''\<rparr>,
        disk = None\<rparr>"
      the_guild ci_compare "''2024-05-02''"]
  by (simp add: view_defs)

text \<open>
  C9. For a consistent comparator \<^verbatim>\<open>localeCompare\<close> and a configured role that
  resolves, \<open>remaining\<close> holds exactly the members not in the completed list, in
  ascending order of display name under that comparator, and the members whose display
  names compare as equal to any given name stand in the order the roster has them.
\<close>

theorem summarize_remaining_sorted:
  assumes "consistent_comparator lc"
    and "gangRoleId (data w) = Some r" and "r \<noteq> []" and "roles_cache g r = Some members"
  shows "\<exists>rem. remaining (fst (summarize lc t g w)) = Some rem \<and>
           sorted_wrt (\<lambda>a b. lc (displayName a) (displayName b) \<le> 0) rem \<and>
           set rem = {m \<in> set members. member_id m \<notin> set (completed (data (ensureToday t w)))} \<and>
           (\<forall>n. filter (\<lambda>m. lc (displayName m) n = 0) rem =
                filter (\<lambda>m. lc (displayName m) n = 0)
                  (filter (\<lambda>m. member_id m \<notin> set (completed (data (ensureToday t w))))
                     members))"
proof -
  have res: "getGangMembers g (data w) = Some members"
    using assms by (simp add: getGangMembers_Some)
  let ?c = "\<lambda>a b. lc (displayName a) (displayName b)"
  let ?cand = "filter (\<lambda>m. member_id m \<notin> set (completed (data (ensureToday t w)))) members"
  have sym: "\<And>a b. lc a b = 0 \<Longrightarrow> lc b a = 0"
    and trans: "\<And>a b d. lc a b \<le> 0 \<Longrightarrow> lc b d \<le> 0 \<Longrightarrow> lc a d \<le> 0"
    using assms(1) unfolding consistent_comparator_def by blast+
  have "sorted_wrt (\<lambda>a b. ?c a b \<le> 0) (array_sort ?c ?cand)"
    using consistent_on_displayName [OF assms(1)] by (rule sorted_array_sort)
  moreover have "set (array_sort ?c ?cand)
      = {m \<in> set members. member_id m \<notin> set (completed (data (ensureToday t w)))}"
    by (simp add: set_array_sort)
  moreover have "filter (\<lambda>m. lc (displayName m) n = 0) (array_sort ?c ?cand)
      = filter (\<lambda>m. lc (displayName m) n = 0) ?cand" for n
  proof (rule filter_array_sort)
    fix x y :: member
    assume "lc (displayName x) n = 0" and "lc (displayName y) n = 0"
    then have "lc (displayName x) n \<le> 0" and "lc n (displayName y) \<le> 0"
      using sym by simp_all
    then show "lc (displayName x) (displayName y) \<le> 0" by (rule trans)
  qed
  ultimately show ?thesis
    by (simp add: summarize_resolved [OF res])
qed

text \<open>
  The roster Bo, amy, Zed with nobody done comes out as amy, Bo, Zed; with a second Bo
  (id 5) after Zed in the roster, the two members named Bo stay in roster order.
\<close>

theorem summarize_remaining_sorted_witness:
  "consistent_comparator ci_compare \<and>
   remaining (fst (summarize ci_compare ''2024-05-02'' the_guild
       \<lparr>data = current_doc\<lparr>completed := []\<rparr>, disk = None\<rparr>))
     = Some [amy, Bo, Zed] \<and>
   sorted_wrt (\<lambda>a b. ci_compare (displayName a) (displayName b) \<le> 0) [amy, Bo, Zed] \<and>
   remaining (fst (summarize ci_compare ''2024-05-02''
       (the_guild\<lparr>roles_cache := (\<lambda>r. Some [Bo, amy, Zed, Bo\<lparr>member_id := ''5''\<rparr>])\<rparr>)
       \<lparr>data = current_doc\<lparr>completed := []\<rparr>, disk = None\<rparr>))
     = Some [amy, Bo, Bo\<lparr>member_id := ''5''\<rparr>, Zed]"
  using ci_compare_consistent
    summarize_remaining_sorted [OF ci_compare_consistent, of
      "\<lparr>data = current_doc\<lparr>completed := []\<rparr>, disk = None\<rparr>"
      "''7''" the_guild "[Bo, amy, Zed]" "''2024-05-02''"]
    summarize_remaining_sorted [OF ci_compare_consistent, of
      "\<lparr>data = current_doc\<lparr>completed := []\<rparr>, disk = None\<rparr>"
      "''7''" "the_guild\<lparr>roles_cache := (\<lambda>r. Some [Bo, amy, Zed, Bo\<lparr>member_id := ''5''\<rparr>])\<rparr>"
      "[Bo, amy, Zed, Bo\<lparr>member_id := ''5''\<rparr>]" "''2024-05-02''"]
  by (simp add: view_defs)

section \<open>Replies of the handlers\<close>

lemma snd_cmd_remaining: "snd (cmd_remaining lc t g w) = ensureToday t w"
  using snd_summarize [of lc t g w]
  by (simp add: cmd_remaining_def case_prod_beta split: option.splits)

lemma snd_cmd_ping_remaining: "snd (cmd_ping_remaining lc t g w) = ensureToday t w"
  using snd_summarize [of lc t g w]
  by (simp add: cmd_ping_remaining_def case_prod_beta split: option.splits)

lemma fst_cmd_remaining: "fst (cmd_remaining lc t g w) \<noteq> Some SetRoleFirst"
  using remaining_summarize [of lc t g w]
  by (auto simp: cmd_remaining_def case_prod_beta split: option.splits)

lemma fst_cmd_ping_remaining: "fst (cmd_ping_remaining lc t g w) \<noteq> Some SetRoleFirst"
  using remaining_summarize [of lc t g w]
  by (auto simp: cmd_ping_remaining_def case_prod_beta split: option.splits)

lemma fst_cmd_status: "fst (cmd_status lc t g w) \<noteq> Some SetRoleFirst"
  by (simp add: cmd_status_def case_prod_beta)

lemma cmd_remaining_unset:
  "\<not> truthy (gangRoleId (data w)) \<Longrightarrow> fst (cmd_remaining lc t g w) = Some EveryoneDone"
  using summarize_unresolved [of g w lc t]
  by (simp add: cmd_remaining_def case_prod_beta getGangMembers_def)

lemma fst_cmd_done: "fst (cmd_done lc t g uid w) \<noteq> Some SetRoleFirst"
  by (simp add: cmd_done_def case_prod_beta Let_def split: option.splits)

lemma fst_panel_done: "fst (panel_done lc t g m w) \<noteq> Some SetRoleFirst"
  by (simp add: panel_done_def Let_def)

lemma fst_panel_ping: "fst (panel_ping lc t g m w) \<noteq> Some SetRoleFirst"
  by (simp add: panel_ping_def fst_cmd_ping_remaining)

lemma fst_button_pressed: "fst (button_pressed lc t g c uid w) \<noteq> Some SetRoleFirst"
  by (simp add: button_pressed_def case_prod_beta fst_panel_done fst_panel_ping fst_cmd_remaining
      split: option.splits)

lemma fst_interactionCreate: "fst (interactionCreate lc now g i w) \<noteq> Some SetRoleFirst"
  by (simp add: interactionCreate_def Let_def fst_cmd_done fst_cmd_status fst_cmd_remaining
      fst_cmd_ping_remaining split: interaction.splits option.splits prod.splits)

lemma fst_interactionCreate_panel:
  "fst (interactionCreate_panel lc now g i w) \<noteq> Some SetRoleFirst"
  by (simp add: interactionCreate_panel_def Let_def fst_button_pressed fst_panel_done
      fst_panel_ping fst_cmd_status fst_cmd_remaining
      split: interaction.splits option.splits prod.splits)

text \<open>
  C10. \<open>summarize\<close> never returns a null \<open>remaining\<close>, so no interaction of either
  version is ever answered with the reply that asks for a gang role to be set first; and
  when no role is configured, the \<^verbatim>\<open>remaining\<close> command and button answer that
  everyone is done.
\<close>

theorem set_role_first_unreachable:
  "remaining (fst (summarize lc t g w)) \<noteq> None \<and>
   fst (interactionCreate lc now g i w) \<noteq> Some SetRoleFirst \<and>
   fst (interactionCreate_panel lc now g i wp) \<noteq> Some SetRoleFirst \<and>
   (\<not> truthy (gangRoleId (data w)) \<longrightarrow>
      fst (interactionCreate lc now g (ChatInputCommand ''remaining'' uid opt) w)
        = Some EveryoneDone) \<and>
   (\<not> truthy (gangRoleId (data wp)) \<longrightarrow>
      fst (interactionCreate_panel lc now g (ChatInputCommand ''remaining'' uid opt) wp)
        = Some EveryoneDone \<and>
      (members_fetch g uid \<noteq> None \<longrightarrow>
         fst (interactionCreate_panel lc now g (Button ''btn_remaining'' uid) wp)
           = Some EveryoneDone))"
proof -
  have basic: "fst (interactionCreate lc now g (ChatInputCommand ''remaining'' uid opt) w)
      = Some EveryoneDone" if "\<not> truthy (gangRoleId (data w))"
    using that
    by (simp add: interactionCreate_def Let_def cmd_remaining_unset gangRoleId_ensureToday)
  have panel: "fst (interactionCreate_panel lc now g (ChatInputCommand ''remaining'' uid opt) wp)
      = Some EveryoneDone" if "\<not> truthy (gangRoleId (data wp))"
    using that
    by (simp add: interactionCreate_panel_def Let_def cmd_remaining_unset gangRoleId_ensureToday)
  have button: "fst (interactionCreate_panel lc now g (Button ''btn_remaining'' uid) wp)
      = Some EveryoneDone"
    if "\<not> truthy (gangRoleId (data wp))" and "members_fetch g uid \<noteq> None"
    using that
    by (auto simp: interactionCreate_panel_def button_pressed_def Let_def cmd_remaining_unset
        gangRoleId_ensureToday)
  show ?thesis
    using basic panel button
    by (simp add: remaining_summarize fst_interactionCreate fst_interactionCreate_panel)
qed

text \<open>With the role removed from today's document, amy asks who is left.\<close>

theorem set_role_first_unreachable_witness:
  "truthy (gangRoleId (data \<lparr>data = current_doc\<lparr>gangRoleId := None\<rparr>, disk = None\<rparr>)) = False \<and>
   truthy (gangRoleId (data \<lparr>data = current_panel_doc\<lparr>gangRoleId := None\<rparr>, disk = None\<rparr>))
     = False \<and>
   members_fetch the_guild ''2'' = Some amy \<and>
   interactionCreate ci_compare on_may_2 the_guild (ChatInputCommand ''remaining'' ''2'' None)
       \<lparr>data = current_doc\<lparr>gangRoleId := None\<rparr>, disk = None\<rparr>
     = (Some EveryoneDone, \<lparr>data = current_doc\<lparr>gangRoleId := None\<rparr>, disk = None\<rparr>) \<and>
   fst (interactionCreate_panel ci_compare on_may_2 the_guild (Button ''btn_remaining'' ''2'')
       \<lparr>data = current_panel_doc\<lparr>gangRoleId := None\<rparr>, disk = None\<rparr>)
     = Some EveryoneDone"
  using set_role_first_unreachable [where lc = ci_compare and now = on_may_2 and g = the_guild
      and uid = "''2''" and opt = None and t = "''2024-05-02''"
      and i = "ChatInputCommand ''remaining'' ''2'' None"
      and w = "\<lparr>data = current_doc\<lparr>gangRoleId := None\<rparr>, disk = None\<rparr>"
      and wp = "\<lparr>data = current_panel_doc\<lparr>gangRoleId := None\<rparr>, disk = None\<rparr>"]
  by (simp add: view_defs panel_defs basic_defs)

section \<open>Marking done\<close>

lemma snd_panelEmbed: "snd (panelEmbed lc t g w) = ensureToday t w"
  by (simp add: panelEmbed_def case_prod_beta snd_summarize)

lemma refresh_panel_cases:
  "refresh_panel lc t g w = w \<or> refresh_panel lc t g w = ensureToday t w"
  by (simp add: refresh_panel_def snd_panelEmbed split: option.splits)

lemma refresh_panel_same: "currentDate (data w) = t \<Longrightarrow> refresh_panel lc t g w = w"
  using refresh_panel_cases [of lc t g w] by (auto simp: ensureToday_same)

lemma basic_done_ineligible:
  assumes "members_fetch g uid = Some m" and "\<not> isGangMember (data w) m"
  shows "interactionCreate lc now g (ChatInputCommand ''done'' uid opt) w
           = (Some NoGangRole, ensureToday (now 0) w)"
  using assms by (simp add: interactionCreate_def cmd_done_def Let_def isGangMember_ensureToday)

lemma panel_done_ineligible:
  assumes "members_fetch g uid = Some m" and "\<not> isGangMember (data w) m"
  shows "interactionCreate_panel lc now g (ChatInputCommand ''done'' uid opt) w
           = (Some NoGangRole, ensureToday (now 0) w) \<and>
         interactionCreate_panel lc now g (Button ''btn_done'' uid) w
           = (Some NoGangRole, ensureToday (now 0) w)"
  using assms
  by (simp add: interactionCreate_panel_def button_pressed_def panel_done_def Let_def
      isGangMember_ensureToday)

lemma basic_done_eligible:
  assumes "members_fetch g uid = Some m" and "isGangMember (data w) m"
  shows "snd (interactionCreate lc (\<lambda>_. t) g (ChatInputCommand ''done'' uid opt) w) =
     (if member_id m \<in> set (completed (data (ensureToday t w))) then ensureToday t w
      else saveData ((ensureToday t w)\<lparr>data := (data (ensureToday t w))
             \<lparr>completed := completed (data (ensureToday t w)) @ [member_id m]\<rparr>\<rparr>))"
proof -
  let ?w0 = "ensureToday t w"
  let ?w1 = "saveData (?w0\<lparr>data := (data ?w0)\<lparr>completed := completed (data ?w0) @ [member_id m]\<rparr>\<rparr>)"
  have "currentDate (data ?w1) = t"
    by (simp add: saveData_def currentDate_ensureToday)
  then have "snd (summarize lc t g ?w1) = ?w1"
    by (simp add: snd_summarize ensureToday_same)
  then show ?thesis
    using assms
    by (simp add: interactionCreate_def cmd_done_def Let_def isGangMember_ensureToday case_prod_beta)
qed

lemma panel_done_eligible:
  assumes "members_fetch g uid = Some m" and "isGangMember (data w) m"
  shows "snd (interactionCreate_panel lc (\<lambda>_. t) g (ChatInputCommand ''done'' uid opt) w) =
     (if member_id m \<in> set (completed (data (ensureToday t w))) then ensureToday t w
      else saveData ((ensureToday t w)\<lparr>data := (data (ensureToday t w))
             \<lparr>completed := completed (data (ensureToday t w)) @ [member_id m]\<rparr>\<rparr>))"
    and "snd (interactionCreate_panel lc (\<lambda>_. t) g (Button ''btn_done'' uid) w) =
     (if member_id m \<in> set (completed (data (ensureToday t w))) then ensureToday t w
      else saveData ((ensureToday t w)\<lparr>data := (data (ensureToday t w))
             \<lparr>completed := completed (data (ensureToday t w)) @ [member_id m]\<rparr>\<rparr>))"
proof -
  let ?w0 = "ensureToday t w"
  let ?w1 = "saveData (?w0\<lparr>data := (data ?w0)\<lparr>completed := completed (data ?w0) @ [member_id m]\<rparr>\<rparr>)"
  have "currentDate (data ?w1) = t"
    by (simp add: saveData_def currentDate_ensureToday)
  then have r1: "refresh_panel lc t g ?w1 = ?w1"
    by (rule refresh_panel_same)
  have r0: "refresh_panel lc t g ?w0 = ?w0"
    by (simp add: refresh_panel_same currentDate_ensureToday)
  have pd: "snd (panel_done lc t g m ?w0) = (if member_id m \<in> set (completed (data ?w0)) then ?w0 else ?w1)"
    using assms(2) r0 r1 by (simp add: panel_done_def Let_def isGangMember_ensureToday)
  show "snd (interactionCreate_panel lc (\<lambda>_. t) g (ChatInputCommand ''done'' uid opt) w) =
     (if member_id m \<in> set (completed (data ?w0)) then ?w0 else ?w1)"
    using assms(1) pd by (simp add: interactionCreate_panel_def Let_def)
  show "snd (interactionCreate_panel lc (\<lambda>_. t) g (Button ''btn_done'' uid) w) =
     (if member_id m \<in> set (completed (data ?w0)) then ?w0 else ?w1)"
    using assms(1) pd by (simp add: interactionCreate_panel_def button_pressed_def Let_def)
qed

text \<open>The world after a successful mark, whichever version made it.\<close>

lemma marked_props:
  fixes w :: "('a doc_scheme) world" and t :: date and i :: snowflake
  defines "w0 \<equiv> ensureToday t w"
  defines "w' \<equiv> (if i \<in> set (completed (data w0)) then w0
      else saveData (w0\<lparr>data := (data w0)\<lparr>completed := completed (data w0) @ [i]\<rparr>\<rparr>))"
  shows "i \<in> set (completed (data w'))"
    and "i \<notin> set (completed (data w0)) \<Longrightarrow>
           completed (data w') = completed (data w0) @ [i] \<and> disk w' = Some (Json (data w'))"
    and "i \<in> set (completed (data w0)) \<Longrightarrow> w' = w0"
    and "currentDate (data w') = t"
    and "gangRoleId (data w') = gangRoleId (data w)"
    and "distinct (completed (data w)) \<Longrightarrow> count_list (completed (data w')) i = 1"
proof -
  show "i \<in> set (completed (data w'))" by (simp add: w'_def saveData_def)
  show "i \<notin> set (completed (data w0)) \<Longrightarrow>
           completed (data w') = completed (data w0) @ [i] \<and> disk w' = Some (Json (data w'))"
    by (simp add: w'_def saveData_def)
  show "i \<in> set (completed (data w0)) \<Longrightarrow> w' = w0" by (simp add: w'_def)
  show "currentDate (data w') = t"
    by (simp add: w'_def w0_def saveData_def currentDate_ensureToday)
  show "gangRoleId (data w') = gangRoleId (data w)"
    by (simp add: w'_def w0_def saveData_def gangRoleId_ensureToday)
  assume d: "distinct (completed (data w))"
  have d0: "distinct (completed (data w0))"
    using d by (simp add: w0_def ensureToday_def saveData_def)
  show "count_list (completed (data w')) i = 1"
  proof (cases "i \<in> set (completed (data w0))")
    case True
    with d0 show ?thesis
      by (simp add: w'_def count_list_distinct)
  next
    case False
    then show ?thesis
      by (simp add: w'_def saveData_def count_list_0_iff)
  qed
qed

lemma marked_idem:
  fixes w :: "('a doc_scheme) world" and t :: date and i :: snowflake
  defines "w0 \<equiv> ensureToday t w"
  defines "w' \<equiv> (if i \<in> set (completed (data w0)) then w0
      else saveData (w0\<lparr>data := (data w0)\<lparr>completed := completed (data w0) @ [i]\<rparr>\<rparr>))"
  shows "(if i \<in> set (completed (data (ensureToday t w'))) then ensureToday t w'
      else saveData ((ensureToday t w')\<lparr>data := (data (ensureToday t w'))
             \<lparr>completed := completed (data (ensureToday t w')) @ [i]\<rparr>\<rparr>)) = w'"
proof -
  have "currentDate (data w') = t"
    unfolding w'_def w0_def by (rule marked_props(4))
  then have "ensureToday t w' = w'" by (rule ensureToday_same)
  moreover have "i \<in> set (completed (data w'))"
    unfolding w'_def w0_def by (rule marked_props(1))
  ultimately show ?thesis by simp
qed

lemma marked_twice:
  fixes f :: "('a doc_scheme) world \<Rightarrow> ('a doc_scheme) world"
  assumes step: "\<And>x. isGangMember (data x) m \<Longrightarrow>
      f x = (if member_id m \<in> set (completed (data (ensureToday t x))) then ensureToday t x
             else saveData ((ensureToday t x)\<lparr>data := (data (ensureToday t x))
                    \<lparr>completed := completed (data (ensureToday t x)) @ [member_id m]\<rparr>\<rparr>))"
    and e: "isGangMember (data w) m"
  shows "f (f w) = f w"
    and "(f ^^ Suc n) w = f w"
    and "distinct (completed (data w)) \<Longrightarrow> count_list (completed (data (f w))) (member_id m) = 1"
proof -
  note eq = step [OF e]
  have "gangRoleId (data (f w)) = gangRoleId (data w)"
    unfolding eq by (rule marked_props(5))
  then have e': "isGangMember (data (f w)) m"
    using e by (simp add: isGangMember_def)
  show idem: "f (f w) = f w"
    unfolding step [OF e'] unfolding eq by (simp only: marked_idem)
  then show "(f ^^ Suc n) w = f w"
    by (rule funpow_idem)
  show "distinct (completed (data w)) \<Longrightarrow> count_list (completed (data (f w))) (member_id m) = 1"
    unfolding eq by (rule marked_props(6))
qed

text \<open>
  Kim, who does not hold role 7, runs \<^verbatim>\<open>done\<close> on a document still dated
  yesterday: the reply is the rejection, yet the completed list is emptied, the date is
  moved on and the file is rewritten.
\<close>

theorem done_handler_counterexample:
  "members_fetch the_guild ''4'' = Some Kim \<and> isGangMember (data stale_world) Kim = False \<and>
   interactionCreate ci_compare on_may_2 the_guild (ChatInputCommand ''done'' ''4'' None) stale_world
     = (Some NoGangRole,
        \<lparr>data = stale_doc\<lparr>currentDate := ''2024-05-02'', completed := []\<rparr>,
         disk = Some (Json (stale_doc\<lparr>currentDate := ''2024-05-02'', completed := []\<rparr>))\<rparr>) \<and>
   completed (data stale_world) = [''2''] \<and>
   disk stale_world = Some (Json stale_doc) \<and>
   snd (interactionCreate ci_compare on_may_2 the_guild (ChatInputCommand ''done'' ''4'' None) stale_world)
     \<noteq> stale_world"
  by (simp add: view_defs basic_defs)

text \<open>
  C5, as the code has it. A caller who lacks the configured role gets the rejection, and
  the world the handler leaves is the one the rollover at its entry leaves (the given
  world when the document is dated today). For a caller who is eligible, on one day: if the
  caller's id is not in the completed list after rollover it is appended and the
  document is saved; if it is there already nothing changes after rollover; in both
  cases the id is in the completed list afterwards. The command and the button of the
  panel version behave alike.
\<close>

theorem done_handler:
  assumes "members_fetch g uid = Some m"
  shows
    "(\<not> isGangMember (data w) m \<longrightarrow>
        interactionCreate lc now g (ChatInputCommand ''done'' uid opt) w
          = (Some NoGangRole, ensureToday (now 0) w)) \<and>
     (\<not> isGangMember (data wp) m \<longrightarrow>
        interactionCreate_panel lc now g (ChatInputCommand ''done'' uid opt) wp
          = (Some NoGangRole, ensureToday (now 0) wp) \<and>
        interactionCreate_panel lc now g (Button ''btn_done'' uid) wp
          = (Some NoGangRole, ensureToday (now 0) wp)) \<and>
     (isGangMember (data w) m \<longrightarrow>
        snd (interactionCreate lc (\<lambda>_. t) g (ChatInputCommand ''done'' uid opt) w) =
          (if member_id m \<in> set (completed (data (ensureToday t w))) then ensureToday t w
           else saveData ((ensureToday t w)\<lparr>data := (data (ensureToday t w))
                  \<lparr>completed := completed (data (ensureToday t w)) @ [member_id m]\<rparr>\<rparr>)) \<and>
        member_id m \<in> set (completed (data
          (snd (interactionCreate lc (\<lambda>_. t) g (ChatInputCommand ''done'' uid opt) w))))) \<and>
     (isGangMember (data wp) m \<longrightarrow>
        snd (interactionCreate_panel lc (\<lambda>_. t) g (ChatInputCommand ''done'' uid opt) wp) =
          (if member_id m \<in> set (completed (data (ensureToday t wp))) then ensureToday t wp
           else saveData ((ensureToday t wp)\<lparr>data := (data (ensureToday t wp))
                  \<lparr>completed := completed (data (ensureToday t wp)) @ [member_id m]\<rparr>\<rparr>)) \<and>
        snd (interactionCreate_panel lc (\<lambda>_. t) g (Button ''btn_done'' uid) wp) =
          snd (interactionCreate_panel lc (\<lambda>_. t) g (ChatInputCommand ''done'' uid opt) wp) \<and>
        member_id m \<in> set (completed (data
          (snd (interactionCreate_panel lc (\<lambda>_. t) g (ChatInputCommand ''done'' uid opt) wp)))))"
proof (intro conjI impI)
  assume "\<not> isGangMember (data w) m"
  with assms show "interactionCreate lc now g (ChatInputCommand ''done'' uid opt) w
      = (Some NoGangRole, ensureToday (now 0) w)"
    by (rule basic_done_ineligible)
next
  assume "\<not> isGangMember (data wp) m"
  with assms show "interactionCreate_panel lc now g (ChatInputCommand ''done'' uid opt) wp
      = (Some NoGangRole, ensureToday (now 0) wp)"
    and "interactionCreate_panel lc now g (Button ''btn_done'' uid) wp
      = (Some NoGangRole, ensureToday (now 0) wp)"
    using panel_done_ineligible by blast+
next
  assume e: "isGangMember (data w) m"
  show eq: "snd (interactionCreate lc (\<lambda>_. t) g (ChatInputCommand ''done'' uid opt) w) =
          (if member_id m \<in> set (completed (data (ensureToday t w))) then ensureToday t w
           else saveData ((ensureToday t w)\<lparr>data := (data (ensureToday t w))
                  \<lparr>completed := completed (data (ensureToday t w)) @ [member_id m]\<rparr>\<rparr>))"
    using assms e by (rule basic_done_eligible)
  show "member_id m \<in> set (completed (data
          (snd (interactionCreate lc (\<lambda>_. t) g (ChatInputCommand ''done'' uid opt) w))))"
    unfolding eq by (rule marked_props(1))
next
  assume e: "isGangMember (data wp) m"
  show eq: "snd (interactionCreate_panel lc (\<lambda>_. t) g (ChatInputCommand ''done'' uid opt) wp) =
          (if member_id m \<in> set (completed (data (ensureToday t wp))) then ensureToday t wp
           else saveData ((ensureToday t wp)\<lparr>data := (data (ensureToday t wp))
                  \<lparr>completed := completed (data (ensureToday t wp)) @ [member_id m]\<rparr>\<rparr>))"
    using assms e by (rule panel_done_eligible(1))
  show "snd (interactionCreate_panel lc (\<lambda>_. t) g (Button ''btn_done'' uid) wp) =
          snd (interactionCreate_panel lc (\<lambda>_. t) g (ChatInputCommand ''done'' uid opt) wp)"
    unfolding eq using assms e by (rule panel_done_eligible(2))
  show "member_id m \<in> set (completed (data
          (snd (interactionCreate_panel lc (\<lambda>_. t) g (ChatInputCommand ''done'' uid opt) wp))))"
    unfolding eq by (rule marked_props(1))
qed

text \<open>Kim is turned away and Zed is added, in both versions, on a document dated today.\<close>

theorem done_handler_witness:
  "members_fetch the_guild ''4'' = Some Kim \<and> isGangMember (data current_world) Kim = False \<and>
   isGangMember (data current_panel_world) Kim = False \<and>
   interactionCreate ci_compare on_may_2 the_guild (ChatInputCommand ''done'' ''4'' None) current_world
     = (Some NoGangRole, current_world) \<and>
   interactionCreate_panel ci_compare on_may_2 the_guild (Button ''btn_done'' ''4'') current_panel_world
     = (Some NoGangRole, current_panel_world) \<and>
   members_fetch the_guild ''3'' = Some Zed \<and> isGangMember (data current_world) Zed \<and>
   isGangMember (data current_panel_world) Zed \<and>
   snd (interactionCreate ci_compare on_may_2 the_guild (ChatInputCommand ''done'' ''3'' None) current_world)
     = \<lparr>data = current_doc\<lparr>completed := [''2'', ''3'']\<rparr>,
        disk = Some (Json (current_doc\<lparr>completed := [''2'', ''3'']\<rparr>))\<rparr> \<and>
   snd (interactionCreate_panel ci_compare on_may_2 the_guild (Button ''btn_done'' ''3'') current_panel_world)
     = \<lparr>data = current_panel_doc\<lparr>completed := [''2'', ''3'']\<rparr>,
        disk = Some (Json (current_panel_doc\<lparr>completed := [''2'', ''3'']\<rparr>))\<rparr>"
  using
    done_handler [where g = the_guild and uid = "''4''" and m = Kim and lc = ci_compare
      and now = on_may_2 and opt = None and w = current_world and wp = current_panel_world
      and t = "''2024-05-02''"]
    done_handler [where g = the_guild and uid = "''3''" and m = Zed and lc = ci_compare
      and now = on_may_2 and opt = None and w = current_world and wp = current_panel_world
      and t = "''2024-05-02''"]
  by (simp add: ensureToday_def saveData_def isGangMember_def truthy_def)

lemma distinct_marked:
  fixes w :: "('a doc_scheme) world" and t :: date and i :: snowflake
  defines "w0 \<equiv> ensureToday t w"
  assumes "distinct (completed (data w))"
  shows "distinct (completed (data (if i \<in> set (completed (data w0)) then w0
      else saveData (w0\<lparr>data := (data w0)\<lparr>completed := completed (data w0) @ [i]\<rparr>\<rparr>))))"
  using distinct_ensureToday [OF assms(2), of t] by (simp add: w0_def saveData_def)

lemma basic_done_unfetched:
  assumes "members_fetch g uid = None"
  shows "snd (interactionCreate lc now g (ChatInputCommand ''done'' uid opt) w) = ensureToday (now 0) w"
  using assms by (simp add: interactionCreate_def cmd_done_def Let_def)

lemma panel_done_unfetched:
  assumes "members_fetch g uid = None"
  shows "snd (interactionCreate_panel lc now g (ChatInputCommand ''done'' uid opt) w)
           = ensureToday (now 0) w"
    and "snd (interactionCreate_panel lc now g (Button ''btn_done'' uid) w) = ensureToday (now 0) w"
  using assms by (simp_all add: interactionCreate_panel_def button_pressed_def Let_def)

text \<open>
  A step that, on one day, either only rolls the document over (for every world, when
  the fetch fails or the caller is not eligible) or marks an eligible caller.
\<close>

lemma done_step_twice:
  fixes f :: "('a doc_scheme) world \<Rightarrow> ('a doc_scheme) world"
  assumes none: "\<And>x. members_fetch g uid = None \<Longrightarrow> f x = ensureToday t x"
    and rej: "\<And>x m. members_fetch g uid = Some m \<Longrightarrow> \<not> isGangMember (data x) m \<Longrightarrow>
        f x = ensureToday t x"
    and mark: "\<And>x m. members_fetch g uid = Some m \<Longrightarrow> isGangMember (data x) m \<Longrightarrow>
        f x = (if member_id m \<in> set (completed (data (ensureToday t x))) then ensureToday t x
               else saveData ((ensureToday t x)\<lparr>data := (data (ensureToday t x))
                      \<lparr>completed := completed (data (ensureToday t x)) @ [member_id m]\<rparr>\<rparr>))"
  shows "f (f w) = f w"
    and "distinct (completed (data w)) \<Longrightarrow> distinct (completed (data (f w)))"
proof -
  have both: "f (f w) = f w \<and>
      (distinct (completed (data w)) \<longrightarrow> distinct (completed (data (f w))))"
  proof (cases "members_fetch g uid")
    case None
    then show ?thesis
      by (simp add: none ensureToday_idem distinct_ensureToday)
  next
    case (Some m)
    show ?thesis
    proof (cases "isGangMember (data w) m")
      case True
      have "f (f w) = f w"
        using mark [OF Some] True by (rule marked_twice(1))
      moreover have "distinct (completed (data (f w)))" if "distinct (completed (data w))"
        unfolding mark [OF Some True] using that by (rule distinct_marked)
      ultimately show ?thesis by blast
    next
      case False
      then have "\<not> isGangMember (data (ensureToday t w)) m"
        by (simp add: isGangMember_ensureToday)
      with False show ?thesis
        by (simp add: rej [OF Some] ensureToday_idem distinct_ensureToday)
    qed
  qed
  from both show "f (f w) = f w" by blast
  from both show "distinct (completed (data w)) \<Longrightarrow> distinct (completed (data (f w)))" by blast
qed

text \<open>
  Kim, who does not hold the configured role 7, runs \<^verbatim>\<open>done\<close> twice on
  today's document, whose completed list has no duplicates: both runs are rejected before
  the push, and Kim's id occurs in the completed list not once but not at all.
\<close>

theorem done_twice_counterexample:
  "members_fetch the_guild ''4'' = Some Kim \<and>
   isGangMember (data current_world) Kim = False \<and>
   distinct (completed (data current_world)) \<and>
   interactionCreate ci_compare on_may_2 the_guild (ChatInputCommand ''done'' ''4'' None)
       current_world
     = (Some NoGangRole, current_world) \<and>
   interactionCreate ci_compare on_may_2 the_guild (ChatInputCommand ''done'' ''4'' None)
       (snd (interactionCreate ci_compare on_may_2 the_guild (ChatInputCommand ''done'' ''4'' None)
          current_world))
     = (Some NoGangRole, current_world) \<and>
   count_list (completed (data
       (snd (interactionCreate ci_compare on_may_2 the_guild (ChatInputCommand ''done'' ''4'' None)
          (snd (interactionCreate ci_compare on_may_2 the_guild
             (ChatInputCommand ''done'' ''4'' None) current_world)))))) (member_id Kim)
     = 0 \<and>
   count_list (completed (data
       (snd (interactionCreate_panel ci_compare on_may_2 the_guild (Button ''btn_done'' ''4'')
          (snd (interactionCreate_panel ci_compare on_may_2 the_guild
             (Button ''btn_done'' ''4'') current_panel_world)))))) (member_id Kim)
     \<noteq> 1"
  by (simp add: view_defs basic_defs panel_defs)

text \<open>
  C6, as the code has it. On one day a second run of \<^verbatim>\<open>done\<close> for the same
  caller, or any further number of runs, leaves the world as the first run did, and a
  completed list without duplicates stays without duplicates. For a caller who is fetched
  and eligible, a completed list without duplicates holds exactly one occurrence of the
  caller's id after the first run, and so after every later one. The command and the
  button of the panel version behave alike.
\<close>

theorem done_twice:
  "(let step = (\<lambda>x. snd (interactionCreate lc (\<lambda>_. t) g (ChatInputCommand ''done'' uid opt) x))
    in step (step w) = step w \<and>
       (step ^^ Suc n) w = step w \<and>
       (distinct (completed (data w)) \<longrightarrow> distinct (completed (data (step w)))) \<and>
       (members_fetch g uid = Some m \<and> isGangMember (data w) m \<and>
        distinct (completed (data w)) \<longrightarrow>
          count_list (completed (data (step w))) (member_id m) = 1)) \<and>
   (let step = (\<lambda>x. snd (interactionCreate_panel lc (\<lambda>_. t) g (ChatInputCommand ''done'' uid opt) x));
        press = (\<lambda>x. snd (interactionCreate_panel lc (\<lambda>_. t) g (Button ''btn_done'' uid) x))
    in step (step wp) = step wp \<and>
       (step ^^ Suc n) wp = step wp \<and>
       press (press wp) = press wp \<and>
       (press ^^ Suc n) wp = press wp \<and>
       (distinct (completed (data wp)) \<longrightarrow>
          distinct (completed (data (step wp))) \<and> distinct (completed (data (press wp)))) \<and>
       (members_fetch g uid = Some m \<and> isGangMember (data wp) m \<and>
        distinct (completed (data wp)) \<longrightarrow>
          count_list (completed (data (step wp))) (member_id m) = 1 \<and>
          count_list (completed (data (press wp))) (member_id m) = 1))"
proof -
  let ?step = "\<lambda>x. snd (interactionCreate lc (\<lambda>_. t) g (ChatInputCommand ''done'' uid opt) x)"
  let ?pstep = "\<lambda>x. snd (interactionCreate_panel lc (\<lambda>_. t) g (ChatInputCommand ''done'' uid opt) x)"
  let ?press = "\<lambda>x. snd (interactionCreate_panel lc (\<lambda>_. t) g (Button ''btn_done'' uid) x)"
  have b1: "?step (?step w) = ?step w"
    and b2: "distinct (completed (data w)) \<Longrightarrow> distinct (completed (data (?step w)))"
    by (rule done_step_twice [where f = ?step and g = g and uid = uid and t = t];
        simp add: basic_done_unfetched basic_done_ineligible basic_done_eligible)+
  have b3: "count_list (completed (data (?step w))) (member_id m) = 1"
    if "members_fetch g uid = Some m" and "isGangMember (data w) m"
      and "distinct (completed (data w))"
    using basic_done_eligible [OF that(1)] that(2,3) by (rule marked_twice(3))
  have c1: "?pstep (?pstep wp) = ?pstep wp"
    and c2: "distinct (completed (data wp)) \<Longrightarrow> distinct (completed (data (?pstep wp)))"
    by (rule done_step_twice [where f = ?pstep and g = g and uid = uid and t = t];
        simp add: panel_done_unfetched panel_done_ineligible panel_done_eligible)+
  have c3: "count_list (completed (data (?pstep wp))) (member_id m) = 1"
    if "members_fetch g uid = Some m" and "isGangMember (data wp) m"
      and "distinct (completed (data wp))"
    using panel_done_eligible(1) [OF that(1)] that(2,3) by (rule marked_twice(3))
  have p1: "?press (?press wp) = ?press wp"
    and p2: "distinct (completed (data wp)) \<Longrightarrow> distinct (completed (data (?press wp)))"
    by (rule done_step_twice [where f = ?press and g = g and uid = uid and t = t];
        simp add: panel_done_unfetched panel_done_ineligible panel_done_eligible)+
  have p3: "count_list (completed (data (?press wp))) (member_id m) = 1"
    if "members_fetch g uid = Some m" and "isGangMember (data wp) m"
      and "distinct (completed (data wp))"
    using panel_done_eligible(2) [OF that(1)] that(2,3) by (rule marked_twice(3))
  show ?thesis
    unfolding Let_def
    using b1 b2 b3 c1 c2 c3 p1 p2 p3
      funpow_idem [of ?step w n, OF b1] funpow_idem [of ?pstep wp n, OF c1]
      funpow_idem [of ?press wp n, OF p1]
    by blast
qed

text \<open>Zed marks done twice, by command on yesterday's document and by button on today's.\<close>

theorem done_twice_witness:
  "members_fetch the_guild ''3'' = Some Zed \<and> isGangMember (data stale_world) Zed \<and>
   distinct (completed (data stale_world)) \<and>
   isGangMember (data current_panel_world) Zed \<and> distinct (completed (data current_panel_world)) \<and>
   count_list (completed (data (snd (interactionCreate ci_compare on_may_2 the_guild
      (ChatInputCommand ''done'' ''3'' None) stale_world)))) ''3'' = 1 \<and>
   snd (interactionCreate ci_compare on_may_2 the_guild (ChatInputCommand ''done'' ''3'' None)
     (snd (interactionCreate ci_compare on_may_2 the_guild (ChatInputCommand ''done'' ''3'' None)
        stale_world)))
   = snd (interactionCreate ci_compare on_may_2 the_guild (ChatInputCommand ''done'' ''3'' None)
        stale_world) \<and>
   count_list (completed (data (snd (interactionCreate_panel ci_compare on_may_2 the_guild
      (Button ''btn_done'' ''3'') current_panel_world)))) ''3'' = 1"
  using done_twice [where g = the_guild and uid = "''3''" and m = Zed and lc = ci_compare
      and opt = None and w = stale_world and wp = current_panel_world
      and t = "''2024-05-02''" and n = 1]
  by (simp add: isGangMember_def truthy_def Let_def)

section \<open>Forced reset\<close>

lemma basic_force_reset:
  "interactionCreate lc now g (ChatInputCommand ''force-reset'' uid opt) w =
     (Some ChecklistReset,
      saveData ((ensureToday (now 0) w)\<lparr>data := (data (ensureToday (now 0) w))
        \<lparr>currentDate := now 1, completed := []\<rparr>\<rparr>))"
  by (simp add: interactionCreate_def Let_def)

lemma panel_force_reset:
  "interactionCreate_panel lc (\<lambda>_. t) g (ChatInputCommand ''force-reset'' uid opt) w =
     (Some ChecklistReset,
      saveData ((ensureToday t w)\<lparr>data := (data (ensureToday t w))
        \<lparr>currentDate := t, completed := []\<rparr>\<rparr>))"
proof -
  let ?w1 = "saveData ((ensureToday t w)\<lparr>data := (data (ensureToday t w))
        \<lparr>currentDate := t, completed := []\<rparr>\<rparr>)"
  have "currentDate (data ?w1) = t" by (simp add: saveData_def)
  then have "refresh_panel lc t g ?w1 = ?w1" by (rule refresh_panel_same)
  then show ?thesis by (simp add: interactionCreate_panel_def Let_def)
qed

text \<open>
  C7. On a document dated today, with the clock on that date throughout,
  \<^verbatim>\<open>force-reset\<close> empties the completed list, saves the document and leaves the
  date, the role and the panel references as they were; any later \<open>summarize\<close>
  reports a done count of 0.
\<close>

theorem force_reset_frame:
  "(currentDate (data w) = t \<longrightarrow>
      (let w' = snd (interactionCreate lc (\<lambda>_. t) g (ChatInputCommand ''force-reset'' uid opt) w)
       in fst (interactionCreate lc (\<lambda>_. t) g (ChatInputCommand ''force-reset'' uid opt) w)
            = Some ChecklistReset \<and>
          completed (data w') = [] \<and>
          currentDate (data w') = currentDate (data w) \<and>
          gangRoleId (data w') = gangRoleId (data w) \<and>
          disk w' = Some (Json (data w')) \<and>
          doneCount (fst (summarize lc t' g' w')) = 0)) \<and>
   (currentDate (data wp) = t \<longrightarrow>
      (let w' = snd (interactionCreate_panel lc (\<lambda>_. t) g (ChatInputCommand ''force-reset'' uid opt) wp)
       in fst (interactionCreate_panel lc (\<lambda>_. t) g (ChatInputCommand ''force-reset'' uid opt) wp)
            = Some ChecklistReset \<and>
          completed (data w') = [] \<and>
          currentDate (data w') = currentDate (data wp) \<and>
          gangRoleId (data w') = gangRoleId (data wp) \<and>
          panelMessageId (data w') = panelMessageId (data wp) \<and>
          panelChannelId (data w') = panelChannelId (data wp) \<and>
          disk w' = Some (Json (data w')) \<and>
          doneCount (fst (summarize lc t' g' w')) = 0))"
proof (intro conjI impI)
  assume c: "currentDate (data w) = t"
  let ?w' = "snd (interactionCreate lc (\<lambda>_. t) g (ChatInputCommand ''force-reset'' uid opt) w)"
  have w': "?w' = saveData (w\<lparr>data := (data w)\<lparr>currentDate := t, completed := []\<rparr>\<rparr>)"
    using c by (simp add: basic_force_reset ensureToday_same)
  have e: "completed (data ?w') = []" by (simp add: w' saveData_def)
  show "let w' = ?w'
       in fst (interactionCreate lc (\<lambda>_. t) g (ChatInputCommand ''force-reset'' uid opt) w)
            = Some ChecklistReset \<and>
          completed (data w') = [] \<and>
          currentDate (data w') = currentDate (data w) \<and>
          gangRoleId (data w') = gangRoleId (data w) \<and>
          disk w' = Some (Json (data w')) \<and>
          doneCount (fst (summarize lc t' g' w')) = 0"
  proof -
    have "fst (interactionCreate lc (\<lambda>_. t) g (ChatInputCommand ''force-reset'' uid opt) w)
        = Some ChecklistReset"
      by (simp add: basic_force_reset)
    moreover have "currentDate (data ?w') = currentDate (data w)"
      and "gangRoleId (data ?w') = gangRoleId (data w)"
      and "disk ?w' = Some (Json (data ?w'))"
      using c by (simp_all add: w' saveData_def)
    moreover have "doneCount (fst (summarize lc t' g' ?w')) = 0"
      using e by (rule doneCount_empty)
    ultimately show ?thesis
      unfolding Let_def using e by blast
  qed
next
  assume c: "currentDate (data wp) = t"
  let ?w' = "snd (interactionCreate_panel lc (\<lambda>_. t) g (ChatInputCommand ''force-reset'' uid opt) wp)"
  have w': "?w' = saveData (wp\<lparr>data := (data wp)\<lparr>currentDate := t, completed := []\<rparr>\<rparr>)"
    using c by (simp add: panel_force_reset ensureToday_same)
  have e: "completed (data ?w') = []" by (simp add: w' saveData_def)
  show "let w' = ?w'
       in fst (interactionCreate_panel lc (\<lambda>_. t) g (ChatInputCommand ''force-reset'' uid opt) wp)
            = Some ChecklistReset \<and>
          completed (data w') = [] \<and>
          currentDate (data w') = currentDate (data wp) \<and>
          gangRoleId (data w') = gangRoleId (data wp) \<and>
          panelMessageId (data w') = panelMessageId (data wp) \<and>
          panelChannelId (data w') = panelChannelId (data wp) \<and>
          disk w' = Some (Json (data w')) \<and>
          doneCount (fst (summarize lc t' g' w')) = 0"
  proof -
    have "fst (interactionCreate_panel lc (\<lambda>_. t) g (ChatInputCommand ''force-reset'' uid opt) wp)
        = Some ChecklistReset"
      by (simp add: panel_force_reset)
    moreover have "currentDate (data ?w') = currentDate (data wp)"
      and "gangRoleId (data ?w') = gangRoleId (data wp)"
      and "panelMessageId (data ?w') = panelMessageId (data wp)"
      and "panelChannelId (data ?w') = panelChannelId (data wp)"
      and "disk ?w' = Some (Json (data ?w'))"
      using c by (simp_all add: w' saveData_def)
    moreover have "doneCount (fst (summarize lc t' g' ?w')) = 0"
      using e by (rule doneCount_empty)
    ultimately show ?thesis
      unfolding Let_def using e by blast
  qed
qed

text \<open>Bo resets today's document, in which amy was done.\<close>

theorem force_reset_frame_witness:
  "currentDate (data current_world) = ''2024-05-02'' \<and>
   currentDate (data current_panel_world) = ''2024-05-02'' \<and>
   snd (interactionCreate ci_compare on_may_2 the_guild (ChatInputCommand ''force-reset'' ''1'' None)
        current_world)
     = \<lparr>data = current_doc\<lparr>completed := []\<rparr>, disk = Some (Json (current_doc\<lparr>completed := []\<rparr>))\<rparr> \<and>
   snd (interactionCreate_panel ci_compare on_may_2 the_guild
        (ChatInputCommand ''force-reset'' ''1'' None) current_panel_world)
     = \<lparr>data = current_panel_doc\<lparr>completed := []\<rparr>,
        disk = Some (Json (current_panel_doc\<lparr>completed := []\<rparr>))\<rparr> \<and>
   doneCount (fst (summarize ci_compare ''2024-05-02'' the_guild
     (snd (interactionCreate ci_compare on_may_2 the_guild (ChatInputCommand ''force-reset'' ''1'' None)
        current_world)))) = 0"
  using force_reset_frame [where lc = ci_compare and g = the_guild and uid = "''1''" and opt = None
      and w = current_world and wp = current_panel_world and t = "''2024-05-02''"
      and t' = "''2024-05-02''" and g' = the_guild]
  by (simp add: view_defs panel_defs basic_defs)

section \<open>Pinging the remaining members\<close>

text \<open>
  Zed, who may not manage the guild, runs \<^verbatim>\<open>ping-remaining\<close>. In the panel
  version the reply is the rejection, but on a document still dated yesterday the
  completed list is emptied and the file rewritten. The basic bot has no test of its own
  and sends the ping.
\<close>

theorem ping_remaining_unauthorized_counterexample:
  "members_fetch the_guild ''3'' = Some Zed \<and> manageGuild Zed = False \<and>
   interactionCreate_panel ci_compare on_may_2 the_guild
       (ChatInputCommand ''ping-remaining'' ''3'' None) stale_panel_world
     = (Some AdminsOnly,
        \<lparr>data = stale_panel_doc\<lparr>currentDate := ''2024-05-02'', completed := []\<rparr>,
         disk = Some (Json (stale_panel_doc\<lparr>currentDate := ''2024-05-02'', completed := []\<rparr>))\<rparr>) \<and>
   completed (data stale_panel_world) = [''2''] \<and>
   snd (interactionCreate_panel ci_compare on_may_2 the_guild
       (ChatInputCommand ''ping-remaining'' ''3'' None) stale_panel_world) \<noteq> stale_panel_world \<and>
   interactionCreate ci_compare on_may_2 the_guild
       (ChatInputCommand ''ping-remaining'' ''3'' None) current_world
     = (Some (DailyCheck [Bo, Zed]), current_world)"
  by (simp add: view_defs panel_defs basic_defs)

text \<open>
  C4, as the code has it. In the panel version a caller without the Manage Server
  permission who runs \<^verbatim>\<open>ping-remaining\<close>, by command or by button, gets the rejection, and the
  world the handler leaves is the one the rollover at its entry leaves: the role and the
  panel references are untouched, and nothing changes at all when the document is dated
  today. In the basic bot the handler leaves, for every caller, the world that its two
  rollover checks leave.
\<close>

theorem ping_remaining_unauthorized:
  assumes "members_fetch g uid = Some m" and "\<not> manageGuild m"
  shows
    "interactionCreate_panel lc now g (ChatInputCommand ''ping-remaining'' uid opt) wp
       = (Some AdminsOnly, ensureToday (now 0) wp) \<and>
     interactionCreate_panel lc now g (Button ''btn_ping'' uid) wp
       = (Some AdminsOnly, ensureToday (now 0) wp) \<and>
     gangRoleId (data (ensureToday (now 0) wp)) = gangRoleId (data wp) \<and>
     panelMessageId (data (ensureToday (now 0) wp)) = panelMessageId (data wp) \<and>
     panelChannelId (data (ensureToday (now 0) wp)) = panelChannelId (data wp) \<and>
     (currentDate (data wp) = now 0 \<longrightarrow> ensureToday (now 0) wp = wp) \<and>
     snd (interactionCreate lc now g (ChatInputCommand ''ping-remaining'' uid opt) w)
       = ensureToday (now 1) (ensureToday (now 0) w)"
proof -
  have "interactionCreate_panel lc now g (ChatInputCommand ''ping-remaining'' uid opt) wp
       = (Some AdminsOnly, ensureToday (now 0) wp)"
    using assms by (simp add: interactionCreate_panel_def panel_ping_def Let_def)
  moreover have "interactionCreate_panel lc now g (Button ''btn_ping'' uid) wp
       = (Some AdminsOnly, ensureToday (now 0) wp)"
    using assms by (simp add: interactionCreate_panel_def button_pressed_def panel_ping_def Let_def)
  moreover have "snd (interactionCreate lc now g (ChatInputCommand ''ping-remaining'' uid opt) w)
       = ensureToday (now 1) (ensureToday (now 0) w)"
    by (simp add: interactionCreate_def Let_def snd_cmd_ping_remaining)
  ultimately show ?thesis
    by (simp add: gangRoleId_ensureToday panel_refs_ensureToday ensureToday_same)
qed

text \<open>Zed is turned away by command and by button; today's document is untouched.\<close>

theorem ping_remaining_unauthorized_witness:
  "members_fetch the_guild ''3'' = Some Zed \<and> manageGuild Zed = False \<and>
   interactionCreate_panel ci_compare on_may_2 the_guild
       (ChatInputCommand ''ping-remaining'' ''3'' None) current_panel_world
     = (Some AdminsOnly, current_panel_world) \<and>
   interactionCreate_panel ci_compare on_may_2 the_guild (Button ''btn_ping'' ''3'') current_panel_world
     = (Some AdminsOnly, current_panel_world)"
  using ping_remaining_unauthorized [where g = the_guild and uid = "''3''" and m = Zed
      and lc = ci_compare and now = on_may_2 and opt = None and wp = current_panel_world
      and w = current_world]
  by (simp add: ensureToday_def)

end
